theory Spec2Isabelle
  imports Main
begin

section \<open>Values, objects and object spread\<close>

text \<open>
  The transaction fields of the TypeScript sources are plain JavaScript objects that are
  taken apart by destructuring and put together again by object spread. An object is a
  finite map from keys to values; a key can be present with the value \<open>undefined\<close>,
  which JavaScript distinguishes from an absent key when objects are spread.
\<close>

datatype val = Undefined | Num int | Str string | Arr "val list"

type_synonym obj = "string \<Rightarrow> val option"

text \<open>
  \<open>{...a, ...b}\<close> is \<open>a ++ b\<close>: the keys of \<open>b\<close> win, also when their value is
  \<open>undefined\<close>. \<open>{k1, k2}\<close> for destructured variables \<open>k1, k2\<close> of \<open>m\<close> is
  \<open>pick m [k1, k2]\<close>: every listed key is present, with \<open>undefined\<close> when \<open>m\<close>
  has no such key. The rest pattern \<open>...rest\<close> after the keys \<open>ks\<close> is \<open>omit m ks\<close>.
\<close>

definition field :: "obj \<Rightarrow> string \<Rightarrow> val" where
  "field m k = (case m k of None \<Rightarrow> Undefined | Some v \<Rightarrow> v)"

definition pick :: "obj \<Rightarrow> string list \<Rightarrow> obj" where
  "pick m ks = (\<lambda>k. if k \<in> set ks then Some (field m k) else None)"

definition omit :: "obj \<Rightarrow> string list \<Rightarrow> obj" where
  "omit m ks = (\<lambda>k. if k \<in> set ks then None else m k)"

text \<open>A field is set when its key is present with a value other than \<open>undefined\<close>.\<close>

definition is_set :: "obj \<Rightarrow> string \<Rightarrow> bool" where
  "is_set m k = (field m k \<noteq> Undefined)"

section \<open>Accounts, chains and call parameters\<close>

datatype account_type = local | json_rpc

record account =
  address :: string
  type :: account_type

text \<open>An account parameter is an address or an account object (\<open>Account | Address\<close>).\<close>

datatype account_ref = Address string | Account account

text \<open>
  Of a chain, the sources read \<open>id\<close> (through \<open>assertCurrentChain\<close>),
  \<open>formatters?.transactionRequest?.format\<close> and \<open>serializers?.transaction\<close>.
  The field \<open>transactionRequest\<close> holds the \<open>format\<close> function of the formatter, and
  is \<open>None\<close> when the formatter or its function is missing. A formatter returns the
  formatted object or throws; what it throws is given by its message.
\<close>

type_synonym formatter = "obj \<Rightarrow> string + obj"

record formatters =
  transactionRequest :: "formatter option"

record serializers =
  transaction :: "(obj \<Rightarrow> string) option"

record chain =
  chain_id :: nat
  chain_formatters :: "formatters option"
  chain_serializers :: "serializers option"

text \<open>The \<open>chain\<close> parameter is a chain, \<open>null\<close> (no chain check) or absent.\<close>

datatype chain_param = ChainUndefined | ChainNull | Chain chain

text \<open>
  The parameters of both entry points: \<open>account\<close>, \<open>chain\<close> and the transaction
  fields (everything else: \<open>to\<close>, \<open>data\<close>, \<open>value\<close>, gas and fee fields, \<open>nonce\<close>,
  \<open>accessList\<close>, the chain's extra fields and, for \<open>signTransaction\<close>, \<open>chainId\<close>
  and \<open>prepare\<close>). For \<open>account\<close> and \<open>chain\<close> an absent key and the value
  \<open>undefined\<close> are the same (\<open>None\<close>, \<open>ChainUndefined\<close>): the destructuring
  defaults and \<open>args.chain || undefined\<close> treat them alike. An address is a non-empty
  string (\<open>0x...\<close>), so an account that is present is truthy.
\<close>

record args =
  arg_account :: "account_ref option"
  arg_chain :: chain_param
  arg_fields :: obj

text \<open>
  An object with a parsed account, a chain and transaction fields: the argument of
  \<open>prepareRequest\<close> and the context that \<open>getTransactionError\<close> attaches.
\<close>

record request =
  req_account :: account
  req_chain :: chain_param
  req_fields :: obj

section \<open>Errors, events and effects\<close>

datatype error =
    AccountNotFoundError string
  | InvalidRequest
  | ChainMismatch nat nat
  | ChainNotFound
  | RequestPreparationError string
  | SigningError string
  | TransportError string
  | TransactionExecutionError error request

fun is_TransactionExecutionError :: "error \<Rightarrow> bool" where
  "is_TransactionExecutionError (TransactionExecutionError _ _) = True"
| "is_TransactionExecutionError _ = False"

datatype params = RawTx string | TxRequest obj

text \<open>
  Every call that leaves the two functions is recorded with its outcome, in the order of
  the calls: the validator, the chain id query, the chain comparison, the field
  preparation, the account's own signing function, \<open>extract\<close>, the formatter (both
  with their argument) and \<open>client.request\<close>.
\<close>

datatype event =
    AssertRequestEv args "error + unit"
  | GetChainIdEv "error + nat"
  | AssertCurrentChainEv nat chain_param "error + unit"
  | PrepareRequestEv request "error + obj"
  | SignTransactionEv account obj "(obj \<Rightarrow> string) option" "error + string"
  | ExtractEv obj "error + obj"
  | FormatEv obj "error + obj"
  | RequestEv string params "error + string"

type_synonym trace = "event list"

text \<open>The round-trips over the network: chain id query, estimation, \<open>client.request\<close>.\<close>

fun is_network :: "event \<Rightarrow> bool" where
  "is_network (GetChainIdEv _) = True"
| "is_network (PrepareRequestEv _ _) = True"
| "is_network (RequestEv _ _ _) = True"
| "is_network _ = False"

fun is_getChainId :: "event \<Rightarrow> bool" where
  "is_getChainId (GetChainIdEv _) = True"
| "is_getChainId _ = False"

fun is_assertCurrentChain :: "event \<Rightarrow> bool" where
  "is_assertCurrentChain (AssertCurrentChainEv _ _ _) = True"
| "is_assertCurrentChain _ = False"

fun is_signTransaction :: "event \<Rightarrow> bool" where
  "is_signTransaction (SignTransactionEv _ _ _ _) = True"
| "is_signTransaction _ = False"

fun is_request :: "event \<Rightarrow> bool" where
  "is_request (RequestEv _ _ _) = True"
| "is_request _ = False"

fun failure :: "'a + 'b \<Rightarrow> 'a option" where
  "failure (Inl e) = Some e"
| "failure (Inr _) = None"

fun failure_of :: "event \<Rightarrow> error option" where
  "failure_of (AssertRequestEv _ r) = failure r"
| "failure_of (GetChainIdEv r) = failure r"
| "failure_of (AssertCurrentChainEv _ _ r) = failure r"
| "failure_of (PrepareRequestEv _ r) = failure r"
| "failure_of (SignTransactionEv _ _ _ r) = failure r"
| "failure_of (ExtractEv _ r) = failure r"
| "failure_of (FormatEv _ r) = failure r"
| "failure_of (RequestEv _ _ r) = failure r"

text \<open>
  An asynchronous function: from the events so far to a thrown error or a returned
  value, and the events extended by its own.
\<close>

type_synonym 'a eff = "trace \<Rightarrow> (error + 'a) \<times> trace"

definition return :: "'a \<Rightarrow> 'a eff" where
  "return a = (\<lambda>t. (Inr a, t))"

definition throw :: "error \<Rightarrow> 'a eff" where
  "throw e = (\<lambda>t. (Inl e, t))"

definition await :: "'a eff \<Rightarrow> ('a \<Rightarrow> 'b eff) \<Rightarrow> 'b eff" where
  "await m f = (\<lambda>t. case m t of (Inl e, t') \<Rightarrow> (Inl e, t') | (Inr a, t') \<Rightarrow> f a t')"

definition try_catch :: "'a eff \<Rightarrow> (error \<Rightarrow> 'a eff) \<Rightarrow> 'a eff" where
  "try_catch m h = (\<lambda>t. case m t of (Inl e, t') \<Rightarrow> h e t' | (Inr a, t') \<Rightarrow> (Inr a, t'))"

text \<open>
  A call to a collaborator: its outcome, which may depend on the events so far, is
  recorded as the next event.
\<close>

definition perform :: "((error + 'a) \<Rightarrow> event) \<Rightarrow> (trace \<Rightarrow> error + 'a) \<Rightarrow> 'a eff" where
  "perform ev answer = (\<lambda>t. (answer t, t @ [ev (answer t)]))"

text \<open>The events a computation adds to the events \<open>t\<close> it starts from.\<close>

definition events :: "'a eff \<Rightarrow> trace \<Rightarrow> trace" where
  "events m t = drop (length t) (snd (m t))"

definition outcome :: "'a eff \<Rightarrow> trace \<Rightarrow> error + 'a" where
  "outcome m t = fst (m t)"

section \<open>The client and the imported functions\<close>

text \<open>
  The client holds the hoisted account and chain, and the transport. What the node
  answers may depend on everything that happened before, so the answers are functions of
  the events so far.
\<close>

record client =
  client_account :: "account option"
  client_chain :: "chain option"
  eth_chainId :: "trace \<Rightarrow> error + nat"
  transport :: "trace \<Rightarrow> string \<Rightarrow> params \<Rightarrow> error + string"
  estimation :: "trace \<Rightarrow> request \<Rightarrow> error + obj"

text \<open>
  The imported functions whose code is outside the two source files, as far as their
  behaviour is left open: which requests the validator rejects, what the chain assertion
  does without a chain, the signing function of local accounts, the chain's default
  fields, \<open>extract\<close> (here \<open>extract_fields\<close>) and the default formatter
  \<open>formatTransactionRequest\<close>. \<open>extract\<close> calls the formatter it is given, so it can
  throw as a formatter can.
\<close>

record deps =
  structurally_invalid :: "args \<Rightarrow> bool"
  no_chain_error :: "error option"
  account_signTransaction :: "account \<Rightarrow> obj \<Rightarrow> (obj \<Rightarrow> string) option \<Rightarrow> error + string"
  chain_defaults :: "chain_param \<Rightarrow> obj"
  extract_fields :: "obj \<Rightarrow> formatter \<Rightarrow> string + obj"
  formatTransactionRequest :: formatter

text \<open>
  Modelled from the spec: \<open>parseAccount\<close> (accounts/utils/parseAccount.js) is not among
  the sources. Section 4.1: the reference "may already be a canonical Account or a bare
  address-like value"; a bare address carries no key material, so it becomes an account
  tagged Remote ("Remote carries only an address").
\<close>

fun parseAccount :: "account_ref \<Rightarrow> account" where
  "parseAccount (Address a) = \<lparr>address = a, type = json_rpc\<rparr>"
| "parseAccount (Account acc) = acc"

text \<open>
  Modelled from the spec: \<open>assertRequest\<close> (utils/transaction/assertRequest.js) is not
  among the sources. Section 4.2: it "fails fast with InvalidRequest when the intent is
  structurally impossible to submit" and has no side effects. Which requests are
  structurally impossible is the parameter \<open>structurally_invalid\<close>.
\<close>

definition assertRequest :: "deps \<Rightarrow> args \<Rightarrow> unit eff" where
  "assertRequest d a =
     perform (AssertRequestEv a)
       (\<lambda>t. if structurally_invalid d a then Inl InvalidRequest else Inr ())"

text \<open>\<open>getChainId(client)\<close>: one round-trip that asks the node for its chain id.\<close>

definition getChainId :: "client \<Rightarrow> nat eff" where
  "getChainId c = perform GetChainIdEv (eth_chainId c)"

text \<open>
  Modelled from the spec: \<open>assertCurrentChain\<close> (utils/chain.js) is not among the
  sources. Section 4.3: "compare to the declared ChainDescriptor's id; on mismatch fail
  with ChainMismatch carrying both ids". The spec does not say what happens when there is
  no chain to compare with (the call sites exclude \<open>null\<close> only): that is the parameter
  \<open>no_chain_error\<close>.
\<close>

definition assertCurrentChain :: "deps \<Rightarrow> nat \<Rightarrow> chain_param \<Rightarrow> unit eff" where
  "assertCurrentChain d currentChainId ch =
     perform (AssertCurrentChainEv currentChainId ch)
       (\<lambda>t. case ch of
          Chain c \<Rightarrow>
            if currentChainId \<noteq> chain_id c then Inl (ChainMismatch (chain_id c) currentChainId)
            else Inr ()
        | _ \<Rightarrow> (case no_chain_error d of Some e \<Rightarrow> Inl e | None \<Rightarrow> Inr ()))"

text \<open>
  Modelled from the spec: \<open>prepareRequest\<close> (utils/transaction/prepareRequest.js) is not
  among the sources. Section 4.4: "merge, in increasing priority, (a) chain-specific
  default/extension fields, (b) caller-supplied fields, (c) externally estimated fee/nonce
  fields for any field the caller left unset". The estimation is a round-trip that may
  fail; its failure is the failure of the preparation.
\<close>

definition merge_fields :: "obj \<Rightarrow> obj \<Rightarrow> obj \<Rightarrow> obj" where
  "merge_fields defaults caller estimated =
     (\<lambda>k. if is_set caller k then caller k
          else (case estimated k of Some v \<Rightarrow> Some v | None \<Rightarrow> (defaults ++ caller) k))"

definition prepareRequest :: "deps \<Rightarrow> client \<Rightarrow> request \<Rightarrow> obj eff" where
  "prepareRequest d c r =
     perform (PrepareRequestEv r)
       (\<lambda>t. case estimation c t r of
          Inl e \<Rightarrow> Inl e
        | Inr est \<Rightarrow> Inr (merge_fields (chain_defaults d (req_chain r)) (req_fields r) est))"

text \<open>\<open>account.signTransaction(transaction, { serializer })\<close> of a local account.\<close>

definition signTransaction_local ::
    "deps \<Rightarrow> account \<Rightarrow> obj \<Rightarrow> (obj \<Rightarrow> string) option \<Rightarrow> string eff" where
  "signTransaction_local d acc tx serializer =
     perform (SignTransactionEv acc tx serializer)
       (\<lambda>t. account_signTransaction d acc tx serializer)"

text \<open>\<open>client.request({ method, params })\<close>: one round-trip over the transport.\<close>

definition client_request :: "client \<Rightarrow> string \<Rightarrow> params \<Rightarrow> string eff" where
  "client_request c method ps = perform (RequestEv method ps) (\<lambda>t. transport c t method ps)"

text \<open>
  \<open>format(...)\<close> and \<open>extract(rest, { format })\<close>: calls that return an object or
  throw. Section 7 of the spec classes a formatting failure as
  \<open>RequestPreparationError\<close>; the error carries the message of what was thrown.
\<close>

definition thrown :: "string + 'a \<Rightarrow> error + 'a" where
  "thrown r = (case r of Inl msg \<Rightarrow> Inl (RequestPreparationError msg) | Inr x \<Rightarrow> Inr x)"

definition format_call :: "formatter \<Rightarrow> obj \<Rightarrow> obj eff" where
  "format_call format x = perform (FormatEv x) (\<lambda>t. thrown (format x))"

definition extract_call :: "deps \<Rightarrow> obj \<Rightarrow> formatter \<Rightarrow> obj eff" where
  "extract_call d rest format =
     perform (ExtractEv rest) (\<lambda>t. thrown (extract_fields d rest format))"

text \<open>
  Modelled from the spec: \<open>getTransactionError\<close> (utils/errors/getTransactionError.js) is
  not among the sources. Section 4.6: the failure "is rewrapped into a single error value
  that retains the original failure as its cause and additionally attaches" the context.
\<close>

definition getTransactionError :: "error \<Rightarrow> request \<Rightarrow> error" where
  "getTransactionError err ctx = TransactionExecutionError err ctx"

text \<open>
  Modelled from the spec: \<open>numberToHex\<close> (utils) is not among the sources. Section 4.5:
  the chain id is "hex-encoded, per wire convention": \<open>0x\<close> and the hexadecimal digits,
  most significant first, without leading zeros.
\<close>

definition hex_digit :: "nat \<Rightarrow> char" where
  "hex_digit n = ''0123456789abcdef'' ! (n mod 16)"

fun hex_digits :: "nat \<Rightarrow> string" where
  "hex_digits n = (if n < 16 then [hex_digit n] else hex_digits (n div 16) @ [hex_digit n])"

declare hex_digits.simps [simp del]

definition numberToHex :: "nat \<Rightarrow> string" where
  "numberToHex n = ''0x'' @ hex_digits n"

section \<open>The two entry points\<close>

text \<open>
  The defaults of the destructuring pattern: \<open>account: account_ = client.account\<close> and
  \<open>chain = client.chain\<close> take the client's value when the parameter is absent.
\<close>

definition resolve_account :: "client \<Rightarrow> args \<Rightarrow> account_ref option" where
  "resolve_account c a =
     (case arg_account a of Some r \<Rightarrow> Some r | None \<Rightarrow> map_option Account (client_account c))"

definition resolve_chain :: "client \<Rightarrow> args \<Rightarrow> chain_param" where
  "resolve_chain c a =
     (case arg_chain a of
        ChainUndefined \<Rightarrow> (case client_chain c of None \<Rightarrow> ChainUndefined | Some ch \<Rightarrow> Chain ch)
      | p \<Rightarrow> p)"

text \<open>\<open>chain?.formatters?.transactionRequest?.format\<close> and \<open>chain?.serializers?.transaction\<close>.\<close>

definition formatters_of :: "chain_param \<Rightarrow> formatters option" where
  "formatters_of ch = (case ch of Chain c \<Rightarrow> chain_formatters c | _ \<Rightarrow> None)"

definition format_of :: "formatters option \<Rightarrow> formatter option" where
  "format_of fs = (case fs of Some f \<Rightarrow> transactionRequest f | None \<Rightarrow> None)"

definition serializer_of :: "chain option \<Rightarrow> (obj \<Rightarrow> string) option" where
  "serializer_of ch =
     (case ch of
        Some c \<Rightarrow> (case chain_serializers c of Some s \<Rightarrow> transaction s | None \<Rightarrow> None)
      | None \<Rightarrow> None)"

definition chain_option :: "chain_param \<Rightarrow> chain option" where
  "chain_option ch = (case ch of Chain c \<Rightarrow> Some c | _ \<Rightarrow> None)"

text \<open>\<open>a || b\<close> on optional objects and functions, which are truthy when present.\<close>

definition or_else :: "'a option \<Rightarrow> 'a option \<Rightarrow> 'a option" where
  "or_else a b = (case a of Some x \<Rightarrow> Some x | None \<Rightarrow> b)"

definition or_default :: "'a option \<Rightarrow> 'a \<Rightarrow> 'a" where
  "or_default a b = (case a of Some x \<Rightarrow> x | None \<Rightarrow> b)"

text \<open>
  The \<open>format\<close> constant of each entry point. In \<open>signTransaction\<close>:
  \<open>formatters = chain?.formatters || client.chain?.formatters\<close> and
  \<open>format = formatters?.transactionRequest?.format || formatTransactionRequest\<close>.
  In \<open>sendTransaction\<close>:
  \<open>format = chain?.formatters?.transactionRequest?.format || formatTransactionRequest\<close>.
\<close>

definition sign_format :: "deps \<Rightarrow> client \<Rightarrow> chain_param \<Rightarrow> formatter" where
  "sign_format d client chain =
     (let formatters =
            or_else (formatters_of chain)
              (case client_chain client of None \<Rightarrow> None | Some c \<Rightarrow> chain_formatters c)
      in or_default (format_of formatters) (formatTransactionRequest d))"

definition send_format :: "deps \<Rightarrow> chain_param \<Rightarrow> formatter" where
  "send_format d chain = or_default (format_of (formatters_of chain)) (formatTransactionRequest d)"

text \<open>
  \<open>{ account, ...args }\<close>, the argument of the validator in \<open>signTransaction\<close>: the
  parsed account, over which the spread of \<open>args\<close> writes the caller's own \<open>account\<close>
  when there is one. \<open>{ ...args, account, chain: args.chain || undefined }\<close>, the
  context attached by \<open>sendTransaction\<close> to a failure.
\<close>

definition with_account :: "account \<Rightarrow> args \<Rightarrow> args" where
  "with_account account a =
     (case arg_account a of
        None \<Rightarrow> a\<lparr>arg_account := Some (Account account)\<rparr>
      | Some r \<Rightarrow> a)"

definition error_context :: "account \<Rightarrow> args \<Rightarrow> request" where
  "error_context account a =
     \<lparr>req_account = account,
      req_chain = (case arg_chain a of Chain c \<Rightarrow> Chain c | _ \<Rightarrow> ChainUndefined),
      req_fields = arg_fields a\<rparr>"

subsection \<open>signTransaction (src/actions/wallet/signTransaction.ts)\<close>

definition signTransaction :: "deps \<Rightarrow> client \<Rightarrow> args \<Rightarrow> string eff" where
  "signTransaction d client a =
     (let account' = resolve_account client a;
          chain = resolve_chain client a;
          transaction = arg_fields a
      in case account' of
           None \<Rightarrow> throw (AccountNotFoundError ''/docs/actions/wallet/signMessage'')
         | Some r \<Rightarrow>
             let account = parseAccount r in
             await (assertRequest d (with_account account a)) (\<lambda>_.
             await (getChainId client) (\<lambda>chainId.
             await (case chain of
                      ChainNull \<Rightarrow> return ()
                    | _ \<Rightarrow> assertCurrentChain d chainId chain) (\<lambda>_.
             let format = sign_format d client chain
             in if type account = local then
                  signTransaction_local d account
                    ([''chainId'' \<mapsto> Num (int chainId)] ++ transaction)
                    (serializer_of (client_chain client))
                else
                  await (format_call format transaction) (\<lambda>formatted.
                  client_request client ''eth_signTransaction''
                    (TxRequest ([''chainId'' \<mapsto> Str (numberToHex chainId)]
                                  ++ formatted)))))))"

subsection \<open>sendTransaction\<close>

definition named_before_from :: "string list" where
  "named_before_from = [''accessList'', ''data'']"

definition named_after_from :: "string list" where
  "named_after_from =
     [''gas'', ''gasPrice'', ''maxFeePerGas'', ''maxPriorityFeePerGas'', ''nonce'', ''to'',
      ''value'']"

definition named_keys :: "string list" where
  "named_keys = named_before_from @ named_after_from"

text \<open>
  The object that the JSON-RPC branch of \<open>sendTransaction\<close> hands to \<open>format\<close>:
  \<open>{ ...extract(rest, { format }), accessList, data, from: account.address, gas, gasPrice,
  maxFeePerGas, maxPriorityFeePerGas, nonce, to, value }\<close>, where \<open>extracted\<close> is what
  \<open>extract\<close> returned.
\<close>

definition transaction_request :: "obj \<Rightarrow> account \<Rightarrow> args \<Rightarrow> obj" where
  "transaction_request extracted account a =
     extracted
       ++ pick (arg_fields a) named_before_from
       ++ [''from'' \<mapsto> Str (address account)]
       ++ pick (arg_fields a) named_after_from"

text \<open>
  \<open>chainId\<close> is \<open>undefined\<close> (\<open>None\<close>) until the chain id is fetched.
  \<open>if (!chainId) chainId = await getChainId(client)\<close> fetches it when it is
  \<open>undefined\<close> and when it is the number 0.
\<close>

definition sendTransaction :: "deps \<Rightarrow> client \<Rightarrow> args \<Rightarrow> string eff" where
  "sendTransaction d client a =
     (let account' = resolve_account client a;
          chain = resolve_chain client a;
          rest = omit (arg_fields a) named_keys
      in case account' of
           None \<Rightarrow> throw (AccountNotFoundError ''/docs/actions/wallet/sendTransaction'')
         | Some r \<Rightarrow>
             let account = parseAccount r in
             try_catch
               (await (assertRequest d a) (\<lambda>_.
                await (case chain of
                         ChainNull \<Rightarrow> return None
                       | _ \<Rightarrow> await (getChainId client) (\<lambda>n.
                              await (assertCurrentChain d n chain) (\<lambda>_. return (Some n))))
                  (\<lambda>chainId.
                if type account = local then
                  await (prepareRequest d client
                           \<lparr>req_account = account, req_chain = chain,
                            req_fields = pick (arg_fields a) named_keys ++ rest\<rparr>) (\<lambda>request.
                  await (case chainId of
                           None \<Rightarrow> getChainId client
                         | Some n \<Rightarrow> if n = 0 then getChainId client else return n)
                    (\<lambda>chainId.
                  await (signTransaction_local d account
                           (request ++ [''chainId'' \<mapsto> Num (int chainId)])
                           (serializer_of (chain_option chain))) (\<lambda>signedRequest.
                  client_request client ''eth_sendRawTransaction'' (RawTx signedRequest))))
                else
                  let format = send_format d chain
                  in await (extract_call d rest format) (\<lambda>extracted.
                     await (format_call format (transaction_request extracted account a))
                       (\<lambda>request.
                     client_request client ''eth_sendTransaction'' (TxRequest request))))))
               (\<lambda>err. throw (getTransactionError err (error_context account a))))"

section \<open>Concrete inputs\<close>

text \<open>
  A client on chain 1 whose node answers every query, a validator that rejects a request
  with neither \<open>to\<close> nor \<open>data\<close>, a signer that always returns the same bytes, and
  the intent of the spec's scenario A.
\<close>

definition mainnet :: chain where
  "mainnet = \<lparr>chain_id = 1, chain_formatters = None, chain_serializers = None\<rparr>"

definition deps0 :: deps where
  "deps0 =
     \<lparr>structurally_invalid =
        (\<lambda>a. \<not> is_set (arg_fields a) ''to'' \<and> \<not> is_set (arg_fields a) ''data''),
      no_chain_error = Some ChainNotFound,
      account_signTransaction = (\<lambda>acc tx ser. Inr ''0x02f8signed''),
      chain_defaults = (\<lambda>ch. Map.empty),
      extract_fields = (\<lambda>rest format. Inr Map.empty),
      formatTransactionRequest = (\<lambda>r. Inr r)\<rparr>"

definition node :: "nat \<Rightarrow> client" where
  "node n =
     \<lparr>client_account = None,
      client_chain = Some mainnet,
      eth_chainId = (\<lambda>t. Inr n),
      transport = (\<lambda>t method ps. Inr ''0xhash''),
      estimation = (\<lambda>t r. Inr [''nonce'' \<mapsto> Num 7, ''gas'' \<mapsto> Num 50000])\<rparr>"

definition offline :: client where
  "offline = (node 1)\<lparr>eth_chainId := (\<lambda>t. Inl (TransportError ''offline''))\<rparr>"

definition local_account :: account where
  "local_account = \<lparr>address = ''0xA0Cf'', type = local\<rparr>"

definition intent :: obj where
  "intent = [''to'' \<mapsto> Str ''0x7099'', ''value'' \<mapsto> Num 1, ''gas'' \<mapsto> Num 21000]"

text \<open>
  Chain 1 with a formatter of its own: one that leaves \<open>from\<close> out of what it returns,
  and one that throws on every request.
\<close>

definition without_from :: formatter where
  "without_from r = Inr (r(''from'' := None))"

definition out_of_range :: formatter where
  "out_of_range r = Inl ''IntegerOutOfRangeError''"

definition chain_with :: "formatter \<Rightarrow> chain" where
  "chain_with format =
     \<lparr>chain_id = 1, chain_formatters = Some \<lparr>transactionRequest = Some format\<rparr>,
      chain_serializers = None\<rparr>"

text \<open>A call with an account, and a call that leaves the account to the client.\<close>

definition hoisted :: "chain_param \<Rightarrow> obj \<Rightarrow> args" where
  "hoisted ch fs = \<lparr>arg_account = None, arg_chain = ch, arg_fields = fs\<rparr>"

definition call :: "account_ref \<Rightarrow> chain_param \<Rightarrow> obj \<Rightarrow> args" where
  "call r ch fs = \<lparr>arg_account = Some r, arg_chain = ch, arg_fields = fs\<rparr>"

section \<open>Reasoning about the effects\<close>

text \<open>
  \<open>post m t Q\<close>: started after the events \<open>t\<close>, the computation \<open>m\<close> ends with an
  outcome and events that satisfy \<open>Q\<close>.
\<close>

definition post :: "'a eff \<Rightarrow> trace \<Rightarrow> ((error + 'a) \<Rightarrow> trace \<Rightarrow> bool) \<Rightarrow> bool" where
  "post m t Q = Q (fst (m t)) (snd (m t))"

text \<open>A signing call that returned bytes.\<close>

fun produced_bytes :: "event \<Rightarrow> bool" where
  "produced_bytes (SignTransactionEv _ _ _ (Inr _)) = True"
| "produced_bytes _ = False"

text \<open>The events before the first signing call that returned bytes.\<close>

definition before_signing :: "trace \<Rightarrow> trace" where
  "before_signing evs = takeWhile (\<lambda>ev. \<not> produced_bytes ev) evs"

text \<open>The key \<open>k\<close> of the record that a request carries (a raw transaction has none).\<close>

fun param_field :: "params \<Rightarrow> string \<Rightarrow> val option" where
  "param_field (TxRequest p) k = p k"
| "param_field (RawTx _) k = None"

text \<open>The key \<open>k\<close> of every record handed to signing or sent by \<open>client.request\<close>.\<close>

fun payload_field :: "string \<Rightarrow> event \<Rightarrow> val option list" where
  "payload_field k (SignTransactionEv _ tx _ _) = [tx k]"
| "payload_field k (RequestEv _ p _) = [param_field p k]"
| "payload_field k _ = []"

lemmas op_defs = assertRequest_def getChainId_def assertCurrentChain_def prepareRequest_def
  signTransaction_local_def client_request_def getTransactionError_def format_call_def
  extract_call_def thrown_def

lemmas fixture_defs = mainnet_def deps0_def node_def offline_def local_account_def intent_def
  call_def hoisted_def chain_with_def without_from_def out_of_range_def

lemmas run_defs = outcome_def events_def return_def throw_def await_def try_catch_def
  perform_def op_defs Let_def resolve_account_def resolve_chain_def

lemma post_return: "Q (Inr a) t \<Longrightarrow> post (return a) t Q"
  by (simp add: post_def return_def)

lemma post_throw: "Q (Inl e) t \<Longrightarrow> post (throw e) t Q"
  by (simp add: post_def throw_def)

lemma post_perform:
  assumes "\<And>e. answer t = Inl e \<Longrightarrow> Q (Inl e) (t @ [ev (Inl e)])"
    and "\<And>x. answer t = Inr x \<Longrightarrow> Q (Inr x) (t @ [ev (Inr x)])"
  shows "post (perform ev answer) t Q"
  using assms by (cases "answer t") (simp_all add: post_def perform_def)

lemma post_await_perform:
  assumes "\<And>e. answer t = Inl e \<Longrightarrow> Q (Inl e) (t @ [ev (Inl e)])"
    and "\<And>x. answer t = Inr x \<Longrightarrow> post (f x) (t @ [ev (Inr x)]) Q"
  shows "post (await (perform ev answer) f) t Q"
  using assms by (cases "answer t") (simp_all add: post_def await_def perform_def)

lemma post_try_catch:
  assumes "post m t (\<lambda>res t'. case res of Inl e \<Rightarrow> post (h e) t' Q | Inr x \<Rightarrow> Q (Inr x) t')"
  shows "post (try_catch m h) t Q"
proof (cases "m t")
  case (Pair res t')
  with assms show ?thesis
    by (cases res) (simp_all add: post_def try_catch_def)
qed

lemma post_await_if:
  assumes "b \<Longrightarrow> post (await m1 f) t Q" and "\<not> b \<Longrightarrow> post (await m2 f) t Q"
  shows "post (await (if b then m1 else m2) f) t Q"
  using assms by simp

lemma await_return: "await (return a) f = f a"
  by (simp add: await_def return_def)

lemma await_await: "await (await m f) g = await m (\<lambda>x. await (f x) g)"
  by (rule ext) (simp add: await_def split: prod.splits sum.splits)

lemma post_await_prepareRequest:
  assumes "\<And>e. estimation c t r = Inl e \<Longrightarrow> Q (Inl e) (t @ [PrepareRequestEv r (Inl e)])"
    and "\<And>est. estimation c t r = Inr est \<Longrightarrow>
           post (f (merge_fields (chain_defaults d (req_chain r)) (req_fields r) est))
             (t @ [PrepareRequestEv r
                     (Inr (merge_fields (chain_defaults d (req_chain r)) (req_fields r) est))]) Q"
  shows "post (await (prepareRequest d c r) f) t Q"
  using assms
  by (cases "estimation c t r") (simp_all add: post_def await_def perform_def prepareRequest_def)

lemma post_await_format_call:
  assumes "\<And>msg. format x = Inl msg \<Longrightarrow>
             Q (Inl (RequestPreparationError msg))
               (t @ [FormatEv x (Inl (RequestPreparationError msg))])"
    and "\<And>y. format x = Inr y \<Longrightarrow> post (f y) (t @ [FormatEv x (Inr y)]) Q"
  shows "post (await (format_call format x) f) t Q"
  using assms
  by (cases "format x")
     (simp_all add: post_def await_def perform_def format_call_def thrown_def)

lemma post_await_extract_call:
  assumes "\<And>msg. extract_fields d rest format = Inl msg \<Longrightarrow>
             Q (Inl (RequestPreparationError msg))
               (t @ [ExtractEv rest (Inl (RequestPreparationError msg))])"
    and "\<And>y. extract_fields d rest format = Inr y \<Longrightarrow>
             post (f y) (t @ [ExtractEv rest (Inr y)]) Q"
  shows "post (await (extract_call d rest format) f) t Q"
  using assms
  by (cases "extract_fields d rest format")
     (simp_all add: post_def await_def perform_def extract_call_def thrown_def)

lemmas post_rules =
  post_await_if post_await_prepareRequest post_await_format_call post_await_extract_call
  post_await_perform post_perform post_return post_throw post_try_catch

lemmas vcg_simps = assertRequest_def getChainId_def assertCurrentChain_def
  signTransaction_local_def client_request_def getTransactionError_def Let_def await_return
  await_await

lemma transaction_request_from:
  "transaction_request extracted account a ''from'' = Some (Str (address account))"
  by (simp add: transaction_request_def pick_def named_after_from_def map_add_def)

lemma transaction_request_chainId:
  "transaction_request extracted account a ''chainId'' = extracted ''chainId''"
  by (simp add: transaction_request_def pick_def named_before_from_def named_after_from_def
      map_add_def)

lemma pick_omit_keeps: "m k = Some v \<Longrightarrow> (pick m ks ++ omit m ks) k = Some v"
  by (simp add: pick_def omit_def field_def map_add_def)

lemma merge_fields_keeps:
  "caller k = Some v \<Longrightarrow> v \<noteq> Undefined \<Longrightarrow> merge_fields defaults caller estimated k = Some v"
  by (simp add: merge_fields_def is_set_def field_def)

lemma no_account_send:
  "resolve_account c a = None \<Longrightarrow> sendTransaction d c a t =
     (Inl (AccountNotFoundError ''/docs/actions/wallet/sendTransaction''), t)"
  by (simp add: sendTransaction_def throw_def)

lemma no_account_sign:
  "resolve_account c a = None \<Longrightarrow> signTransaction d c a t =
     (Inl (AccountNotFoundError ''/docs/actions/wallet/signMessage''), t)"
  by (simp add: signTransaction_def throw_def)

section \<open>C1: where failures are wrapped\<close>

lemma send_failure_wrapped:
  assumes "resolve_account c a = Some r"
  shows "post (sendTransaction d c a) t (\<lambda>res t'. \<forall>e. res = Inl e \<longrightarrow>
           drop (length t) t' \<noteq> [] \<and>
           (\<exists>cause. failure_of (last (drop (length t) t')) = Some cause \<and>
              e = TransactionExecutionError cause (error_context (parseAccount r) a)))"
  using assms
  apply (cases "resolve_chain c a"; cases "type (parseAccount r)")
  apply (simp_all add: sendTransaction_def vcg_simps split del: if_split)
  apply (intro post_rules | simp add: vcg_simps split del: if_split)+
  done

lemma sign_failure_raw:
  assumes "resolve_account c a = Some r"
  shows "post (signTransaction d c a) t (\<lambda>res t'. \<forall>e. res = Inl e \<longrightarrow>
           drop (length t) t' \<noteq> [] \<and> failure_of (last (drop (length t) t')) = Some e)"
  using assms
  apply (cases "resolve_chain c a"; cases "type (parseAccount r)")
  apply (simp_all add: signTransaction_def vcg_simps split del: if_split)
  apply (intro post_rules | simp add: vcg_simps split del: if_split)+
  done

text \<open>
  C1, as stated, fails in three ways. \<open>signTransaction\<close> has no error boundary: with a
  node that cannot be reached, the caller receives the transport error of the chain id
  query itself. \<open>sendTransaction\<close> resolves the account before its \<open>try\<close>: without an
  account the caller receives \<open>AccountNotFoundError\<close>, not wrapped. And the wrapper of
  \<open>sendTransaction\<close> carries \<open>args.chain || undefined\<close>: when the chain is the
  client's, the resolved chain is chain 1 and the wrapper carries none.
\<close>

theorem signTransaction_failure_not_wrapped:
  "outcome (signTransaction deps0 offline (call (Account local_account) ChainUndefined intent)) []
     = Inl (TransportError ''offline'') \<and>
   \<not> is_TransactionExecutionError (TransportError ''offline'') \<and>
   outcome (sendTransaction deps0 (node 1) (hoisted ChainUndefined intent)) []
     = Inl (AccountNotFoundError ''/docs/actions/wallet/sendTransaction'') \<and>
   \<not> is_TransactionExecutionError
        (AccountNotFoundError ''/docs/actions/wallet/sendTransaction'') \<and>
   resolve_chain offline (call (Account local_account) ChainUndefined intent) = Chain mainnet \<and>
   outcome (sendTransaction deps0 offline (call (Account local_account) ChainUndefined intent)) []
     = Inl (TransactionExecutionError (TransportError ''offline'')
              \<lparr>req_account = local_account, req_chain = ChainUndefined, req_fields = intent\<rparr>)"
  by (simp add: run_defs signTransaction_def sendTransaction_def fixture_defs with_account_def
      error_context_def is_set_def field_def)

text \<open>
  C1, amended: a failing call of \<open>sendTransaction\<close> whose account resolves delivers the
  error of the call that failed (the last call made: validation, chain id query, chain
  comparison, preparation, signing, \<open>extract\<close>, formatting or request), wrapped exactly once by
  \<open>getTransactionError\<close>, with the caller's fields, the resolved account and the chain the
  caller passed (none when it was absent or \<open>null\<close>). Without an account,
  \<open>sendTransaction\<close> fails with \<open>AccountNotFoundError\<close>, not wrapped, before any call.
  A failing call of \<open>signTransaction\<close> delivers the failing stage's error as it is.
\<close>

theorem failure_wrapped_once_by_sendTransaction_only:
  "(outcome (sendTransaction d c a) t = Inl e \<longrightarrow>
      (resolve_account c a = None \<and>
       e = AccountNotFoundError ''/docs/actions/wallet/sendTransaction'' \<and>
       events (sendTransaction d c a) t = []) \<or>
      (\<exists>r cause. resolve_account c a = Some r \<and>
         events (sendTransaction d c a) t \<noteq> [] \<and>
         failure_of (last (events (sendTransaction d c a) t)) = Some cause \<and>
         e = TransactionExecutionError cause (error_context (parseAccount r) a))) \<and>
   (outcome (signTransaction d c a) t = Inl e' \<longrightarrow>
      (resolve_account c a = None \<and>
       e' = AccountNotFoundError ''/docs/actions/wallet/signMessage'' \<and>
       events (signTransaction d c a) t = []) \<or>
      (resolve_account c a \<noteq> None \<and>
       events (signTransaction d c a) t \<noteq> [] \<and>
       failure_of (last (events (signTransaction d c a) t)) = Some e'))"
proof (cases "resolve_account c a")
  case None
  then show ?thesis
    by (auto simp add: outcome_def events_def no_account_send no_account_sign)
next
  case (Some r)
  from send_failure_wrapped [OF Some, of d t] sign_failure_raw [OF Some, of d t] Some
  show ?thesis
    by (simp add: post_def outcome_def events_def)
qed

text \<open>
  C1, amended, at a node that cannot be reached and at a chain whose formatter throws:
  \<open>sendTransaction\<close> wraps the error of the failed call with the context of the call,
  \<open>signTransaction\<close> delivers it as it is.
\<close>

theorem failure_wrapped_once_by_sendTransaction_only_witness:
  "outcome (sendTransaction deps0 offline (call (Account local_account) ChainUndefined intent)) []
     = Inl (TransactionExecutionError (TransportError ''offline'')
              (error_context local_account (call (Account local_account) ChainUndefined intent))) \<and>
   outcome (signTransaction deps0 offline (call (Account local_account) ChainUndefined intent)) []
     = Inl (TransportError ''offline'') \<and>
   failure_of (last (events
      (sendTransaction deps0 offline (call (Account local_account) ChainUndefined intent)) []))
     = Some (TransportError ''offline'') \<and>
   failure_of (last (events
      (signTransaction deps0 offline (call (Account local_account) ChainUndefined intent)) []))
     = Some (TransportError ''offline'') \<and>
   outcome (sendTransaction deps0 (node 1)
      (call (Address ''0xA0Cf'') (Chain (chain_with out_of_range)) intent)) []
     = Inl (TransactionExecutionError (RequestPreparationError ''IntegerOutOfRangeError'')
              (error_context (parseAccount (Address ''0xA0Cf''))
                 (call (Address ''0xA0Cf'') (Chain (chain_with out_of_range)) intent))) \<and>
   outcome (signTransaction deps0 (node 1)
      (call (Address ''0xA0Cf'') (Chain (chain_with out_of_range)) intent)) []
     = Inl (RequestPreparationError ''IntegerOutOfRangeError'') \<and>
   failure_of (last (events (sendTransaction deps0 (node 1)
      (call (Address ''0xA0Cf'') (Chain (chain_with out_of_range)) intent)) []))
     = Some (RequestPreparationError ''IntegerOutOfRangeError'') \<and>
   failure_of (last (events (signTransaction deps0 (node 1)
      (call (Address ''0xA0Cf'') (Chain (chain_with out_of_range)) intent)) []))
     = Some (RequestPreparationError ''IntegerOutOfRangeError'')"
  using
    failure_wrapped_once_by_sendTransaction_only
      [of deps0 offline "call (Account local_account) ChainUndefined intent" "[]"
          "TransactionExecutionError (TransportError ''offline'')
             (error_context local_account (call (Account local_account) ChainUndefined intent))"
          "TransportError ''offline''"]
    failure_wrapped_once_by_sendTransaction_only
      [of deps0 "node 1" "call (Address ''0xA0Cf'') (Chain (chain_with out_of_range)) intent" "[]"
          "TransactionExecutionError (RequestPreparationError ''IntegerOutOfRangeError'')
             (error_context (parseAccount (Address ''0xA0Cf''))
                (call (Address ''0xA0Cf'') (Chain (chain_with out_of_range)) intent))"
          "RequestPreparationError ''IntegerOutOfRangeError''"]
  by (simp add: run_defs sendTransaction_def signTransaction_def fixture_defs with_account_def
      is_set_def field_def sign_format_def send_format_def or_default_def or_else_def
      format_of_def formatters_of_def)

section \<open>C2: the opt-out with \<open>chain: null\<close>\<close>

lemma null_chain_send:
  assumes "arg_chain a = ChainNull" and "resolve_account c a = Some r"
  shows "post (sendTransaction d c a) t (\<lambda>res t'.
           (\<forall>ev \<in> set (drop (length t) t'). \<not> is_assertCurrentChain ev) \<and>
           (type (parseAccount r) = json_rpc \<longrightarrow>
              (\<forall>ev \<in> set (drop (length t) t'). \<not> is_getChainId ev)))"
  using assms
  apply (cases "type (parseAccount r)")
  apply (simp_all add: sendTransaction_def resolve_chain_def vcg_simps split del: if_split)
  apply (intro post_rules | simp add: vcg_simps split del: if_split)+
  done

lemma null_chain_sign:
  assumes "arg_chain a = ChainNull" and "resolve_account c a = Some r"
  shows "post (signTransaction d c a) t (\<lambda>res t'.
           \<forall>ev \<in> set (drop (length t) t'). \<not> is_assertCurrentChain ev)"
  using assms
  apply (cases "type (parseAccount r)")
  apply (simp_all add: signTransaction_def resolve_chain_def vcg_simps split del: if_split)
  apply (intro post_rules | simp add: vcg_simps split del: if_split)+
  done

text \<open>
  C2, as stated, fails: with \<open>chain: null\<close> the chain id is still fetched.
  \<open>signTransaction\<close> queries it before it looks at \<open>chain\<close>, and \<open>sendTransaction\<close>
  with a local account queries it after the preparation, because the signed record needs it.
\<close>

theorem null_chain_still_fetches_chain_id:
  "filter is_getChainId
     (events (signTransaction deps0 (node 1) (call (Account local_account) ChainNull intent)) [])
   = [GetChainIdEv (Inr 1)] \<and>
   filter is_getChainId
     (events (sendTransaction deps0 (node 1) (call (Account local_account) ChainNull intent)) [])
   = [GetChainIdEv (Inr 1)]"
  by (simp add: run_defs signTransaction_def sendTransaction_def fixture_defs with_account_def
      is_set_def field_def)

text \<open>
  C2, amended: when the caller passes \<open>chain: null\<close>, neither entry point compares the
  node's chain id with a chain (\<open>assertCurrentChain\<close> is not called), and
  \<open>sendTransaction\<close> with a JSON-RPC account does not fetch the chain id either.
\<close>

theorem null_chain_skips_comparison:
  assumes "arg_chain a = ChainNull"
  shows "(\<forall>ev \<in> set (events (signTransaction d c a) t). \<not> is_assertCurrentChain ev) \<and>
         (\<forall>ev \<in> set (events (sendTransaction d c a) t). \<not> is_assertCurrentChain ev) \<and>
         (\<forall>r. resolve_account c a = Some r \<and> type (parseAccount r) = json_rpc \<longrightarrow>
            (\<forall>ev \<in> set (events (sendTransaction d c a) t). \<not> is_getChainId ev))"
proof (cases "resolve_account c a")
  case None
  then show ?thesis
    by (simp add: events_def no_account_send no_account_sign)
next
  case (Some r)
  from null_chain_send [OF assms Some, of d t] null_chain_sign [OF assms Some, of d t] Some
  show ?thesis
    by (simp add: post_def events_def)
qed

text \<open>
  C2, amended, for a JSON-RPC account that passes \<open>chain: null\<close>: none of the four
  calls of \<open>signTransaction\<close> and of the four calls of \<open>sendTransaction\<close> (validation,
  \<open>extract\<close>, formatting, request) is a comparison, and those of \<open>sendTransaction\<close>
  do not fetch the chain id.
\<close>

theorem null_chain_skips_comparison_witness:
  "map is_assertCurrentChain
     (events (signTransaction deps0 (node 1) (call (Address ''0xA0Cf'') ChainNull intent)) [])
   = [False, False, False, False] \<and>
   map is_assertCurrentChain
     (events (sendTransaction deps0 (node 1) (call (Address ''0xA0Cf'') ChainNull intent)) [])
   = [False, False, False, False] \<and>
   map is_getChainId
     (events (sendTransaction deps0 (node 1) (call (Address ''0xA0Cf'') ChainNull intent)) [])
   = [False, False, False, False]"
  using null_chain_skips_comparison
    [of "call (Address ''0xA0Cf'') ChainNull intent" deps0 "node 1" "[]"]
  by (simp add: run_defs signTransaction_def sendTransaction_def fixture_defs with_account_def
      is_set_def field_def sign_format_def send_format_def or_default_def or_else_def
      format_of_def formatters_of_def)

section \<open>C3: the chain id of the payload\<close>

lemma send_local_chain_id:
  assumes "resolve_account c a = Some r" and "type (parseAccount r) = local"
  shows "post (sendTransaction d c a) t (\<lambda>res t'.
           \<forall>acc tx ser sres. SignTransactionEv acc tx ser sres \<in> set (drop (length t) t') \<longrightarrow>
             (\<exists>n. GetChainIdEv (Inr n) \<in> set (drop (length t) t') \<and>
                  tx ''chainId'' = Some (Num (int n))))"
  using assms
  apply (cases "resolve_chain c a")
  apply (simp_all add: sendTransaction_def vcg_simps split del: if_split)
  apply (intro post_rules | simp add: vcg_simps split del: if_split)+
  done

lemma sign_chain_id:
  assumes "resolve_account c a = Some r"
  shows "post (signTransaction d c a) t (\<lambda>res t'.
           (\<forall>acc tx ser sres. SignTransactionEv acc tx ser sres \<in> set (drop (length t) t') \<longrightarrow>
             (\<exists>n. GetChainIdEv (Inr n) \<in> set (drop (length t) t') \<and>
                  tx ''chainId'' =
                    Some (case arg_fields a ''chainId'' of None \<Rightarrow> Num (int n) | Some v \<Rightarrow> v))) \<and>
           (\<forall>m p rres. RequestEv m p rres \<in> set (drop (length t) t') \<longrightarrow>
             (\<exists>n formatted. GetChainIdEv (Inr n) \<in> set (drop (length t) t') \<and>
                  sign_format d c (resolve_chain c a) (arg_fields a) = Inr formatted \<and>
                  param_field p ''chainId'' =
                    Some (case formatted ''chainId'' of
                            None \<Rightarrow> Str (numberToHex n) | Some v \<Rightarrow> v))))"
  using assms
  apply (cases "resolve_chain c a"; cases "type (parseAccount r)")
  apply (simp_all add: signTransaction_def vcg_simps split del: if_split)
  apply (intro post_rules | simp add: vcg_simps map_add_def split del: if_split split: option.splits)+
  done

text \<open>
  C3, as stated, fails: \<open>signTransaction\<close> builds \<open>{ chainId, ...transaction }\<close>, and
  its parameter type allows \<open>chainId: number\<close> among the caller's fields. With the
  client's chain 1 checked against a node that reports 1, a caller's \<open>chainId: 5\<close> is the
  chain id of the record handed to the local signer.
\<close>

theorem caller_chain_id_overrides_node:
  "resolve_chain (node 1) (call (Account local_account) ChainUndefined (intent(''chainId'' \<mapsto> Num 5)))
     \<noteq> ChainNull \<and>
   filter is_getChainId (events (signTransaction deps0 (node 1)
      (call (Account local_account) ChainUndefined (intent(''chainId'' \<mapsto> Num 5)))) [])
     = [GetChainIdEv (Inr 1)] \<and>
   concat (map (payload_field ''chainId'') (events (signTransaction deps0 (node 1)
      (call (Account local_account) ChainUndefined (intent(''chainId'' \<mapsto> Num 5)))) []))
     = [Some (Num 5)]"
  by (simp add: run_defs signTransaction_def fixture_defs with_account_def is_set_def field_def)

text \<open>
  C3, amended: for every dispatch that does not opt out of the chain check, the chain id
  that the dispatch itself places in a final payload is a chain id the node reported
  during that dispatch. The record that \<open>sendTransaction\<close> hands to the local signer
  always carries it. In \<open>signTransaction\<close> the record handed to the local signer carries
  it, and the record sent to the remote channel carries it hex-encoded, unless the
  caller's fields (local) or the record the formatter returned (remote) have a
  \<open>chainId\<close> key of their own, which then takes its place.
\<close>

theorem payload_chain_id_from_node_or_caller:
  assumes "resolve_account c a = Some r" and "resolve_chain c a \<noteq> ChainNull"
  shows "(type (parseAccount r) = local \<longrightarrow>
            (\<forall>acc tx ser sres.
               SignTransactionEv acc tx ser sres \<in> set (events (sendTransaction d c a) t) \<longrightarrow>
               (\<exists>n. GetChainIdEv (Inr n) \<in> set (events (sendTransaction d c a) t) \<and>
                    tx ''chainId'' = Some (Num (int n))))) \<and>
         (\<forall>acc tx ser sres.
            SignTransactionEv acc tx ser sres \<in> set (events (signTransaction d c a) t) \<longrightarrow>
            (\<exists>n. GetChainIdEv (Inr n) \<in> set (events (signTransaction d c a) t) \<and>
                 tx ''chainId'' =
                   Some (case arg_fields a ''chainId'' of None \<Rightarrow> Num (int n) | Some v \<Rightarrow> v))) \<and>
         (\<forall>m p rres.
            RequestEv m p rres \<in> set (events (signTransaction d c a) t) \<longrightarrow>
            (\<exists>n formatted. GetChainIdEv (Inr n) \<in> set (events (signTransaction d c a) t) \<and>
                 sign_format d c (resolve_chain c a) (arg_fields a) = Inr formatted \<and>
                 param_field p ''chainId'' =
                   Some (case formatted ''chainId'' of
                           None \<Rightarrow> Str (numberToHex n) | Some v \<Rightarrow> v)))"
proof (intro conjI impI)
  assume "type (parseAccount r) = local"
  from send_local_chain_id [OF assms(1) this, of d t]
  show "\<forall>acc tx ser sres.
          SignTransactionEv acc tx ser sres \<in> set (events (sendTransaction d c a) t) \<longrightarrow>
          (\<exists>n. GetChainIdEv (Inr n) \<in> set (events (sendTransaction d c a) t) \<and>
               tx ''chainId'' = Some (Num (int n)))"
    by (simp add: post_def events_def)
next
  from sign_chain_id [OF assms(1), of d t]
  show "\<forall>acc tx ser sres.
          SignTransactionEv acc tx ser sres \<in> set (events (signTransaction d c a) t) \<longrightarrow>
          (\<exists>n. GetChainIdEv (Inr n) \<in> set (events (signTransaction d c a) t) \<and>
               tx ''chainId'' =
                 Some (case arg_fields a ''chainId'' of None \<Rightarrow> Num (int n) | Some v \<Rightarrow> v))"
    by (simp add: post_def events_def)
next
  from sign_chain_id [OF assms(1), of d t]
  show "\<forall>m p rres.
          RequestEv m p rres \<in> set (events (signTransaction d c a) t) \<longrightarrow>
          (\<exists>n formatted. GetChainIdEv (Inr n) \<in> set (events (signTransaction d c a) t) \<and>
               sign_format d c (resolve_chain c a) (arg_fields a) = Inr formatted \<and>
               param_field p ''chainId'' =
                 Some (case formatted ''chainId'' of
                         None \<Rightarrow> Str (numberToHex n) | Some v \<Rightarrow> v))"
    by (simp add: post_def events_def)
qed

text \<open>
  C3, amended, in scenario A: the node reports chain 1, and 1 is the chain id of the
  records signed by both entry points and, as \<open>0x1\<close>, of the record sent for remote
  signing.
\<close>

theorem payload_chain_id_from_node_or_caller_witness:
  "concat (map (payload_field ''chainId'')
     (events (sendTransaction deps0 (node 1) (call (Account local_account) ChainUndefined intent)) []))
     = [Some (Num 1), None] \<and>
   concat (map (payload_field ''chainId'')
     (events (signTransaction deps0 (node 1) (call (Account local_account) ChainUndefined intent)) []))
     = [Some (Num 1)] \<and>
   concat (map (payload_field ''chainId'')
     (events (signTransaction deps0 (node 1) (call (Address ''0xA0Cf'') ChainUndefined intent)) []))
     = [Some (Str ''0x1'')]"
  using
    payload_chain_id_from_node_or_caller
      [of "node 1" "call (Account local_account) ChainUndefined intent" "Account local_account"
          deps0 "[]"]
    payload_chain_id_from_node_or_caller
      [of "node 1" "call (Address ''0xA0Cf'') ChainUndefined intent" "Address ''0xA0Cf''"
          deps0 "[]"]
  by (simp add: run_defs signTransaction_def sendTransaction_def fixture_defs with_account_def
      is_set_def field_def merge_fields_def sign_format_def or_default_def or_else_def
      format_of_def formatters_of_def numberToHex_def hex_digit_def hex_digits.simps)

section \<open>C4: round-trips and local signing\<close>

lemma send_local_order:
  assumes "resolve_account c a = Some r" and "type (parseAccount r) = local"
  shows "post (sendTransaction d c a) t (\<lambda>res t'.
           (\<forall>ev \<in> set (takeWhile (\<lambda>ev. \<not> produced_bytes ev) (drop (length t) t')).
              \<not> is_request ev) \<and>
           (\<forall>m p rres. RequestEv m p rres \<in> set (drop (length t) t') \<longrightarrow>
              m = ''eth_sendRawTransaction'' \<and>
              (\<exists>acc tx ser b. p = RawTx b \<and>
                 SignTransactionEv acc tx ser (Inr b) \<in> set (drop (length t) t'))))"
  using assms
  apply (cases "resolve_chain c a")
  apply (simp_all add: sendTransaction_def vcg_simps split del: if_split)
  apply (intro post_rules | simp add: vcg_simps split del: if_split)+
  done

lemma sign_local_order:
  assumes "resolve_account c a = Some r" and "type (parseAccount r) = local"
  shows "post (signTransaction d c a) t (\<lambda>res t'.
           \<forall>ev \<in> set (drop (length t) t'). \<not> is_request ev)"
  using assms
  apply (cases "resolve_chain c a")
  apply (simp_all add: signTransaction_def vcg_simps split del: if_split)
  apply (intro post_rules | simp add: vcg_simps split del: if_split)+
  done

text \<open>
  C4, as stated, fails: with a local account both entry points go to the network before
  they sign. \<open>signTransaction\<close> fetches the chain id; \<open>sendTransaction\<close> fetches the
  chain id and estimates the missing fields.
\<close>

theorem chain_id_fetched_before_signing:
  "type (parseAccount (Account local_account)) = local \<and>
   filter is_network (before_signing
     (events (signTransaction deps0 (node 1) (call (Account local_account) ChainUndefined intent)) []))
   = [GetChainIdEv (Inr 1)] \<and>
   filter is_getChainId (before_signing
     (events (sendTransaction deps0 (node 1) (call (Account local_account) ChainUndefined intent)) []))
   = [GetChainIdEv (Inr 1)]"
  by (simp add: run_defs signTransaction_def sendTransaction_def fixture_defs with_account_def
      is_set_def field_def before_signing_def)

text \<open>
  C4, amended: for every dispatch with a local account, no \<open>client.request\<close> round-trip
  is made before the signing step has produced the signed bytes: \<open>signTransaction\<close> makes
  none at all, and in \<open>sendTransaction\<close> every \<open>client.request\<close> is the broadcast
  (\<open>eth_sendRawTransaction\<close>) of bytes that the signing step returned. The round-trips
  before signing are the chain id query and the estimation of the field preparation.
\<close>

theorem no_request_before_signing:
  assumes "resolve_account c a = Some r" and "type (parseAccount r) = local"
  shows "(\<forall>ev \<in> set (events (signTransaction d c a) t). \<not> is_request ev) \<and>
         (\<forall>ev \<in> set (before_signing (events (sendTransaction d c a) t)). \<not> is_request ev) \<and>
         (\<forall>m p rres. RequestEv m p rres \<in> set (events (sendTransaction d c a) t) \<longrightarrow>
            m = ''eth_sendRawTransaction'' \<and>
            (\<exists>acc tx ser b. p = RawTx b \<and>
               SignTransactionEv acc tx ser (Inr b) \<in> set (events (sendTransaction d c a) t)))"
  using send_local_order [OF assms, of d t] sign_local_order [OF assms, of d t]
  by (simp add: post_def events_def before_signing_def)

text \<open>
  C4, amended, in scenario A: \<open>signTransaction\<close> makes four calls, none of them a
  request; \<open>sendTransaction\<close> makes six, the fifth is the signing and the sixth the only
  request.
\<close>

theorem no_request_before_signing_witness:
  "map is_request
     (events (signTransaction deps0 (node 1) (call (Account local_account) ChainUndefined intent)) [])
   = [False, False, False, False] \<and>
   map is_request
     (events (sendTransaction deps0 (node 1) (call (Account local_account) ChainUndefined intent)) [])
   = [False, False, False, False, False, True] \<and>
   map produced_bytes
     (events (sendTransaction deps0 (node 1) (call (Account local_account) ChainUndefined intent)) [])
   = [False, False, False, False, True, False]"
  using no_request_before_signing
    [of "node 1" "call (Account local_account) ChainUndefined intent"
               "Account local_account" deps0 "[]"]
  by (simp add: run_defs signTransaction_def sendTransaction_def fixture_defs with_account_def
      is_set_def field_def)

section \<open>C5 and C10: the record sent to the remote channel\<close>

lemma sign_remote_request:
  assumes "resolve_account c a = Some r" and "type (parseAccount r) = json_rpc"
  shows "post (signTransaction d c a) t (\<lambda>res t'.
           \<forall>m p rres. RequestEv m p rres \<in> set (drop (length t) t') \<longrightarrow>
             m = ''eth_signTransaction'' \<and>
             (\<exists>n formatted.
                GetChainIdEv (Inr n) \<in> set (drop (length t) t') \<and>
                sign_format d c (resolve_chain c a) (arg_fields a) = Inr formatted \<and>
                p = TxRequest ([''chainId'' \<mapsto> Str (numberToHex n)] ++ formatted)))"
  using assms
  apply (cases "resolve_chain c a")
  apply (simp_all add: signTransaction_def vcg_simps split del: if_split)
  apply (intro post_rules | simp add: vcg_simps split del: if_split)+
  done

lemma send_remote_request:
  assumes "resolve_account c a = Some r" and "type (parseAccount r) = json_rpc"
  shows "post (sendTransaction d c a) t (\<lambda>res t'.
           \<forall>m p rres. RequestEv m p rres \<in> set (drop (length t) t') \<longrightarrow>
             m = ''eth_sendTransaction'' \<and>
             (\<exists>extracted request.
                extract_fields d (omit (arg_fields a) named_keys)
                  (send_format d (resolve_chain c a)) = Inr extracted \<and>
                send_format d (resolve_chain c a)
                  (transaction_request extracted (parseAccount r) a) = Inr request \<and>
                p = TxRequest request))"
  using assms
  apply (cases "resolve_chain c a")
  apply (simp_all add: sendTransaction_def vcg_simps split del: if_split)
  apply (intro post_rules | simp add: vcg_simps split del: if_split)+
  done

lemma send_remote_record:
  assumes "resolve_account c a = Some r" and "type (parseAccount r) = json_rpc"
  shows "post (sendTransaction d c a) t (\<lambda>res t'.
           \<forall>m p rres. RequestEv m p rres \<in> set (drop (length t) t') \<longrightarrow>
             (\<exists>rec request.
                FormatEv rec (Inr request) \<in> set (drop (length t) t') \<and>
                send_format d (resolve_chain c a) rec = Inr request \<and>
                p = TxRequest request \<and>
                rec ''from'' = Some (Str (address (parseAccount r)))))"
  using assms
  apply (cases "resolve_chain c a")
  apply (simp_all add: sendTransaction_def vcg_simps split del: if_split)
  apply (intro post_rules
         | simp add: vcg_simps transaction_request_from split del: if_split)+
  done

text \<open>
  C5, as stated, fails: the JSON-RPC branch of \<open>sendTransaction\<close> formats the caller's
  fields and \<open>from\<close>, and sends the result as it is. With the default formatter the
  record sent with \<open>eth_sendTransaction\<close> has no \<open>chainId\<close>.
\<close>

theorem sendTransaction_remote_without_chain_id:
  "type (parseAccount (Address ''0xA0Cf'')) = json_rpc \<and>
   map is_request
     (events (sendTransaction deps0 (node 1) (call (Address ''0xA0Cf'') ChainUndefined intent)) [])
     = [False, False, False, False, False, True] \<and>
   concat (map (payload_field ''chainId'')
     (events (sendTransaction deps0 (node 1) (call (Address ''0xA0Cf'') ChainUndefined intent)) []))
     = [None]"
  by (simp add: run_defs sendTransaction_def fixture_defs is_set_def field_def send_format_def
      or_default_def format_of_def formatters_of_def transaction_request_def pick_def omit_def
      named_keys_def named_before_from_def named_after_from_def map_add_def)

text \<open>
  C5, amended: for every dispatch with a JSON-RPC account, \<open>signTransaction\<close> sends
  \<open>eth_signTransaction\<close> with the record the formatter returned spread over the
  hex-encoded chain id the node reported (so the chain id is attached unless that record
  has a \<open>chainId\<close> of its own). \<open>sendTransaction\<close> sends \<open>eth_sendTransaction\<close>
  with what the formatter returned alone: it attaches no chain id, and the record it
  formats has a \<open>chainId\<close> only if \<open>extract\<close> takes one from the caller's extra
  fields.
\<close>

theorem remote_request_chain_id:
  assumes "resolve_account c a = Some r" and "type (parseAccount r) = json_rpc"
  shows "(\<forall>m p rres. RequestEv m p rres \<in> set (events (signTransaction d c a) t) \<longrightarrow>
            m = ''eth_signTransaction'' \<and>
            (\<exists>n formatted.
               GetChainIdEv (Inr n) \<in> set (events (signTransaction d c a) t) \<and>
               sign_format d c (resolve_chain c a) (arg_fields a) = Inr formatted \<and>
               p = TxRequest ([''chainId'' \<mapsto> Str (numberToHex n)] ++ formatted))) \<and>
         (\<forall>m p rres. RequestEv m p rres \<in> set (events (sendTransaction d c a) t) \<longrightarrow>
            m = ''eth_sendTransaction'' \<and>
            (\<exists>extracted rec request.
               extract_fields d (omit (arg_fields a) named_keys)
                 (send_format d (resolve_chain c a)) = Inr extracted \<and>
               send_format d (resolve_chain c a) rec = Inr request \<and>
               p = TxRequest request \<and>
               rec ''chainId'' = extracted ''chainId''))"
proof (intro conjI)
  from sign_remote_request [OF assms, of d t]
  show "\<forall>m p rres. RequestEv m p rres \<in> set (events (signTransaction d c a) t) \<longrightarrow>
            m = ''eth_signTransaction'' \<and>
            (\<exists>n formatted.
               GetChainIdEv (Inr n) \<in> set (events (signTransaction d c a) t) \<and>
               sign_format d c (resolve_chain c a) (arg_fields a) = Inr formatted \<and>
               p = TxRequest ([''chainId'' \<mapsto> Str (numberToHex n)] ++ formatted))"
    by (simp add: post_def events_def)
next
  from send_remote_request [OF assms, of d t]
  have sent: "\<forall>m p rres. RequestEv m p rres \<in> set (events (sendTransaction d c a) t) \<longrightarrow>
             m = ''eth_sendTransaction'' \<and>
             (\<exists>extracted request.
                extract_fields d (omit (arg_fields a) named_keys)
                  (send_format d (resolve_chain c a)) = Inr extracted \<and>
                send_format d (resolve_chain c a)
                  (transaction_request extracted (parseAccount r) a) = Inr request \<and>
                p = TxRequest request)"
    by (simp add: post_def events_def)
  show "\<forall>m p rres. RequestEv m p rres \<in> set (events (sendTransaction d c a) t) \<longrightarrow>
            m = ''eth_sendTransaction'' \<and>
            (\<exists>extracted rec request.
               extract_fields d (omit (arg_fields a) named_keys)
                 (send_format d (resolve_chain c a)) = Inr extracted \<and>
               send_format d (resolve_chain c a) rec = Inr request \<and>
               p = TxRequest request \<and>
               rec ''chainId'' = extracted ''chainId'')"
  proof (intro allI impI conjI)
    fix m p rres
    assume ev: "RequestEv m p rres \<in> set (events (sendTransaction d c a) t)"
    with sent show "m = ''eth_sendTransaction''" by blast
    from sent ev obtain extracted request where
      "extract_fields d (omit (arg_fields a) named_keys)
         (send_format d (resolve_chain c a)) = Inr extracted"
      "send_format d (resolve_chain c a)
         (transaction_request extracted (parseAccount r) a) = Inr request"
      "p = TxRequest request"
      by blast
    then show "\<exists>extracted rec request.
               extract_fields d (omit (arg_fields a) named_keys)
                 (send_format d (resolve_chain c a)) = Inr extracted \<and>
               send_format d (resolve_chain c a) rec = Inr request \<and>
               p = TxRequest request \<and>
               rec ''chainId'' = extracted ''chainId''"
      using transaction_request_chainId by blast
  qed
qed

text \<open>
  C5, amended, for a JSON-RPC account on chain 1: the record sent by \<open>signTransaction\<close>
  carries \<open>chainId: 0x1\<close>; each entry point makes one request, as its last call.
\<close>

theorem remote_request_chain_id_witness:
  "map is_request
     (events (signTransaction deps0 (node 1) (call (Address ''0xA0Cf'') ChainUndefined intent)) [])
     = [False, False, False, False, True] \<and>
   concat (map (payload_field ''chainId'')
     (events (signTransaction deps0 (node 1) (call (Address ''0xA0Cf'') ChainUndefined intent)) []))
     = [Some (Str ''0x1'')] \<and>
   map is_request
     (events (sendTransaction deps0 (node 1) (call (Address ''0xA0Cf'') ChainUndefined intent)) [])
     = [False, False, False, False, False, True]"
  using remote_request_chain_id
    [of "node 1" "call (Address ''0xA0Cf'') ChainUndefined intent" "Address ''0xA0Cf''"
        deps0 "[]"]
  by (simp add: run_defs signTransaction_def sendTransaction_def fixture_defs with_account_def
      is_set_def field_def sign_format_def send_format_def or_default_def or_else_def
      format_of_def formatters_of_def numberToHex_def hex_digit_def hex_digits.simps)

text \<open>
  C10, as stated, fails: what is sent is what the chain's formatter returns, and the
  formatter is the chain's own function. On chain 1 with a formatter that leaves \<open>from\<close>
  out, the one request that \<open>sendTransaction\<close> sends for a JSON-RPC account has no
  \<open>from\<close>.
\<close>

theorem formatter_can_drop_from:
  "type (parseAccount (Address ''0xA0Cf'')) = json_rpc \<and>
   map is_request (events (sendTransaction deps0 (node 1)
      (call (Address ''0xA0Cf'') (Chain (chain_with without_from)) intent)) [])
     = [False, False, False, False, False, True] \<and>
   concat (map (payload_field ''from'') (events (sendTransaction deps0 (node 1)
      (call (Address ''0xA0Cf'') (Chain (chain_with without_from)) intent)) []))
     = [None]"
  by (simp add: run_defs sendTransaction_def fixture_defs is_set_def field_def send_format_def
      or_default_def format_of_def formatters_of_def)

text \<open>
  C10, amended: for every dispatch of \<open>sendTransaction\<close> with a JSON-RPC account, the
  record handed to the formatter has \<open>from\<close> equal to the resolved account's address
  (the parameter type has no \<open>from\<close>, and \<open>from\<close> is written after the spread of the
  extracted fields), and the request sent is what the formatter returned for that record.
  So the request carries that \<open>from\<close> whenever the formatter passes \<open>from\<close> through,
  as the default one does.
\<close>

theorem remote_send_formats_record_with_from:
  assumes "resolve_account c a = Some r" and "type (parseAccount r) = json_rpc"
    and "RequestEv m p rres \<in> set (events (sendTransaction d c a) t)"
  shows "(\<exists>rec request.
            FormatEv rec (Inr request) \<in> set (events (sendTransaction d c a) t) \<and>
            send_format d (resolve_chain c a) rec = Inr request \<and>
            p = TxRequest request \<and>
            rec ''from'' = Some (Str (address (parseAccount r)))) \<and>
         ((\<forall>x y. send_format d (resolve_chain c a) x = Inr y \<longrightarrow> y ''from'' = x ''from'') \<longrightarrow>
            param_field p ''from'' = Some (Str (address (parseAccount r))))"
proof -
  from send_remote_record [OF assms(1,2), of d t]
  have "\<forall>m p rres. RequestEv m p rres \<in> set (events (sendTransaction d c a) t) \<longrightarrow>
          (\<exists>rec request.
             FormatEv rec (Inr request) \<in> set (events (sendTransaction d c a) t) \<and>
             send_format d (resolve_chain c a) rec = Inr request \<and>
             p = TxRequest request \<and>
             rec ''from'' = Some (Str (address (parseAccount r))))"
    by (simp add: post_def events_def)
  with assms(3) obtain rec request where rec:
      "FormatEv rec (Inr request) \<in> set (events (sendTransaction d c a) t)"
      "send_format d (resolve_chain c a) rec = Inr request"
      "p = TxRequest request"
      "rec ''from'' = Some (Str (address (parseAccount r)))"
    by blast
  have "(\<forall>x y. send_format d (resolve_chain c a) x = Inr y \<longrightarrow> y ''from'' = x ''from'') \<longrightarrow>
            param_field p ''from'' = Some (Str (address (parseAccount r)))"
  proof
    assume passes: "\<forall>x y. send_format d (resolve_chain c a) x = Inr y \<longrightarrow> y ''from'' = x ''from''"
    from passes rec(2) have "request ''from'' = rec ''from''" by blast
    with rec(3,4) show "param_field p ''from'' = Some (Str (address (parseAccount r)))"
      by simp
  qed
  with rec show ?thesis by blast
qed

text \<open>
  C10, amended, for the address \<open>0xA0Cf\<close> and the default formatter, which passes
  \<open>from\<close> through: the request is sent and its \<open>from\<close> is that address.
\<close>

theorem remote_send_formats_record_with_from_witness:
  "RequestEv ''eth_sendTransaction''
     (TxRequest (transaction_request Map.empty (parseAccount (Address ''0xA0Cf''))
        (call (Address ''0xA0Cf'') ChainUndefined intent)))
     (Inr ''0xhash'')
     \<in> set (events (sendTransaction deps0 (node 1)
                (call (Address ''0xA0Cf'') ChainUndefined intent)) []) \<and>
   param_field (TxRequest (transaction_request Map.empty (parseAccount (Address ''0xA0Cf''))
        (call (Address ''0xA0Cf'') ChainUndefined intent)))
     ''from'' = Some (Str ''0xA0Cf'')"
proof -
  have ev: "RequestEv ''eth_sendTransaction''
     (TxRequest (transaction_request Map.empty (parseAccount (Address ''0xA0Cf''))
        (call (Address ''0xA0Cf'') ChainUndefined intent)))
     (Inr ''0xhash'')
     \<in> set (events (sendTransaction deps0 (node 1)
                (call (Address ''0xA0Cf'') ChainUndefined intent)) [])"
    by (simp add: run_defs sendTransaction_def fixture_defs is_set_def field_def send_format_def
        or_default_def format_of_def formatters_of_def)
  have acc: "resolve_account (node 1) (call (Address ''0xA0Cf'') ChainUndefined intent)
               = Some (Address ''0xA0Cf'')"
    by (simp add: resolve_account_def call_def)
  have fmt: "\<forall>x y. send_format deps0
               (resolve_chain (node 1) (call (Address ''0xA0Cf'') ChainUndefined intent)) x = Inr y
             \<longrightarrow> y ''from'' = x ''from''"
    by (auto simp add: send_format_def resolve_chain_def fixture_defs or_default_def
        format_of_def formatters_of_def)
  from remote_send_formats_record_with_from [OF acc _ ev] fmt ev show ?thesis
    by simp
qed

section \<open>C6: chain mismatch\<close>

text \<open>
  C6: when the account resolves, the request is valid, a chain is declared (by the caller
  or the client) and the node reports a chain id other than the declared one, both entry
  points fail with \<open>ChainMismatch\<close> carrying the declared and the reported id
  (\<open>sendTransaction\<close> delivers it as the cause of its wrapper), after exactly three
  calls: validation, chain id query, comparison. No signing and no request happens.
\<close>

theorem chain_mismatch_stops_dispatch:
  assumes "resolve_account c a = Some r" and "resolve_chain c a = Chain ch" and "n \<noteq> chain_id ch"
  shows "(\<not> structurally_invalid d a \<and> eth_chainId c (t @ [AssertRequestEv a (Inr ())]) = Inr n \<longrightarrow>
            outcome (sendTransaction d c a) t =
              Inl (TransactionExecutionError (ChainMismatch (chain_id ch) n)
                     (error_context (parseAccount r) a)) \<and>
            events (sendTransaction d c a) t =
              [AssertRequestEv a (Inr ()), GetChainIdEv (Inr n),
               AssertCurrentChainEv n (Chain ch) (Inl (ChainMismatch (chain_id ch) n))] \<and>
            (\<forall>ev \<in> set (events (sendTransaction d c a) t).
               \<not> is_signTransaction ev \<and> \<not> is_request ev)) \<and>
         (\<not> structurally_invalid d (with_account (parseAccount r) a) \<and>
          eth_chainId c (t @ [AssertRequestEv (with_account (parseAccount r) a) (Inr ())]) = Inr n \<longrightarrow>
            outcome (signTransaction d c a) t = Inl (ChainMismatch (chain_id ch) n) \<and>
            events (signTransaction d c a) t =
              [AssertRequestEv (with_account (parseAccount r) a) (Inr ()), GetChainIdEv (Inr n),
               AssertCurrentChainEv n (Chain ch) (Inl (ChainMismatch (chain_id ch) n))] \<and>
            (\<forall>ev \<in> set (events (signTransaction d c a) t).
               \<not> is_signTransaction ev \<and> \<not> is_request ev))"
  using assms
  by (simp add: outcome_def events_def return_def throw_def await_def try_catch_def
      perform_def op_defs Let_def sendTransaction_def signTransaction_def)

text \<open>C6 in scenario B: chain 1 is declared and the node reports chain 5.\<close>

theorem chain_mismatch_stops_dispatch_witness:
  "outcome (sendTransaction deps0 (node 5) (call (Account local_account) (Chain mainnet) intent)) []
     = Inl (TransactionExecutionError (ChainMismatch 1 5)
              (error_context local_account (call (Account local_account) (Chain mainnet) intent))) \<and>
   outcome (signTransaction deps0 (node 5) (call (Account local_account) (Chain mainnet) intent)) []
     = Inl (ChainMismatch 1 5) \<and>
   map is_signTransaction
     (events (signTransaction deps0 (node 5) (call (Account local_account) (Chain mainnet) intent)) [])
     = [False, False, False]"
  using chain_mismatch_stops_dispatch
    [of "node 5" "call (Account local_account) (Chain mainnet) intent"
               "Account local_account" mainnet 5 deps0 "[]"]
  by (simp add: resolve_account_def resolve_chain_def fixture_defs with_account_def is_set_def
      field_def)

section \<open>C7: validation before the network\<close>

text \<open>
  C7: when the account resolves and the validator rejects the request, both entry points
  fail with \<open>InvalidRequest\<close> (\<open>sendTransaction\<close> delivers it as the cause of its
  wrapper) and the validation is the only call they made: no round-trip happened.
\<close>

theorem invalid_request_before_network:
  assumes "resolve_account c a = Some r"
  shows "(structurally_invalid d a \<longrightarrow>
            outcome (sendTransaction d c a) t =
              Inl (TransactionExecutionError InvalidRequest (error_context (parseAccount r) a)) \<and>
            events (sendTransaction d c a) t = [AssertRequestEv a (Inl InvalidRequest)] \<and>
            (\<forall>ev \<in> set (events (sendTransaction d c a) t). \<not> is_network ev)) \<and>
         (structurally_invalid d (with_account (parseAccount r) a) \<longrightarrow>
            outcome (signTransaction d c a) t = Inl InvalidRequest \<and>
            events (signTransaction d c a) t =
              [AssertRequestEv (with_account (parseAccount r) a) (Inl InvalidRequest)] \<and>
            (\<forall>ev \<in> set (events (signTransaction d c a) t). \<not> is_network ev))"
  using assms
  by (simp add: outcome_def events_def return_def throw_def await_def try_catch_def
      perform_def op_defs Let_def sendTransaction_def signTransaction_def)

text \<open>C7 in scenario C: an intent with neither \<open>to\<close> nor \<open>data\<close>.\<close>

theorem invalid_request_before_network_witness:
  "outcome (sendTransaction deps0 (node 1)
      (call (Account local_account) ChainUndefined [''value'' \<mapsto> Num 1])) []
     = Inl (TransactionExecutionError InvalidRequest
              (error_context local_account
                 (call (Account local_account) ChainUndefined [''value'' \<mapsto> Num 1]))) \<and>
   outcome (signTransaction deps0 (node 1)
      (call (Account local_account) ChainUndefined [''value'' \<mapsto> Num 1])) []
     = Inl InvalidRequest \<and>
   map is_network (events (sendTransaction deps0 (node 1)
      (call (Account local_account) ChainUndefined [''value'' \<mapsto> Num 1])) []) = [False] \<and>
   map is_network (events (signTransaction deps0 (node 1)
      (call (Account local_account) ChainUndefined [''value'' \<mapsto> Num 1])) []) = [False]"
  using invalid_request_before_network
    [of "node 1" "call (Account local_account) ChainUndefined [''value'' \<mapsto> Num 1]"
               "Account local_account" deps0 "[]"]
  by (simp add: resolve_account_def fixture_defs with_account_def is_set_def field_def)

section \<open>C8: the caller's fields\<close>

lemma send_local_fields:
  assumes "resolve_account c a = Some r" and "type (parseAccount r) = local"
    and "arg_fields a k = Some v" and "v \<noteq> Undefined" and "k \<noteq> ''chainId''"
  shows "post (sendTransaction d c a) t (\<lambda>res t'.
           \<forall>acc tx ser sres. SignTransactionEv acc tx ser sres \<in> set (drop (length t) t') \<longrightarrow>
             tx k = Some v)"
  using assms
  apply (cases "resolve_chain c a")
  apply (simp_all add: sendTransaction_def vcg_simps split del: if_split)
  apply (intro post_rules
         | simp add: vcg_simps pick_omit_keeps merge_fields_keeps
             split del: if_split)+
  done

lemma sign_local_fields:
  assumes "resolve_account c a = Some r" and "type (parseAccount r) = local"
    and "arg_fields a k = Some v"
  shows "post (signTransaction d c a) t (\<lambda>res t'.
           \<forall>acc tx ser sres. SignTransactionEv acc tx ser sres \<in> set (drop (length t) t') \<longrightarrow>
             tx k = Some v)"
  using assms
  apply (cases "resolve_chain c a")
  apply (simp_all add: signTransaction_def vcg_simps split del: if_split)
  apply (intro post_rules | simp add: vcg_simps map_add_def split del: if_split)+
  done

text \<open>
  C8: with a local account, every field of the caller's intent has the caller's value in
  the record handed to signing. In \<open>signTransaction\<close> that is every key of the fields;
  in \<open>sendTransaction\<close> every key set to a value other than \<open>undefined\<close>, whatever the
  chain's defaults and the estimation are, except \<open>chainId\<close>, which is not a field of
  its parameter type and is attached by \<open>sendTransaction\<close> itself.
\<close>

theorem caller_fields_survive:
  assumes "resolve_account c a = Some r" and "type (parseAccount r) = local"
    and "arg_fields a k = Some v"
  shows "(\<forall>acc tx ser sres.
            SignTransactionEv acc tx ser sres \<in> set (events (signTransaction d c a) t) \<longrightarrow>
            tx k = Some v) \<and>
         (v \<noteq> Undefined \<and> k \<noteq> ''chainId'' \<longrightarrow>
            (\<forall>acc tx ser sres.
               SignTransactionEv acc tx ser sres \<in> set (events (sendTransaction d c a) t) \<longrightarrow>
               tx k = Some v))"
proof (intro conjI impI)
  from sign_local_fields [OF assms, of d t]
  show "\<forall>acc tx ser sres.
          SignTransactionEv acc tx ser sres \<in> set (events (signTransaction d c a) t) \<longrightarrow>
          tx k = Some v"
    by (simp add: post_def events_def)
next
  assume "v \<noteq> Undefined \<and> k \<noteq> ''chainId''"
  with send_local_fields [OF assms, of d t]
  show "\<forall>acc tx ser sres.
          SignTransactionEv acc tx ser sres \<in> set (events (sendTransaction d c a) t) \<longrightarrow>
          tx k = Some v"
    by (simp add: post_def events_def)
qed

text \<open>
  C8 in scenario A: the caller's \<open>gas: 21000\<close> is signed by both entry points although
  the estimation proposes 50000, and the \<open>nonce\<close>, which the caller left unset, is the
  estimated 7.
\<close>

theorem caller_fields_survive_witness:
  "concat (map (payload_field ''gas'')
     (events (signTransaction deps0 (node 1) (call (Account local_account) ChainUndefined intent)) []))
     = [Some (Num 21000)] \<and>
   concat (map (payload_field ''gas'')
     (events (sendTransaction deps0 (node 1) (call (Account local_account) ChainUndefined intent)) []))
     = [Some (Num 21000), None] \<and>
   concat (map (payload_field ''nonce'')
     (events (sendTransaction deps0 (node 1) (call (Account local_account) ChainUndefined intent)) []))
     = [Some (Num 7), None]"
  using caller_fields_survive
    [of "node 1" "call (Account local_account) ChainUndefined intent"
               "Account local_account" "''gas''" "Num 21000" deps0 "[]"]
  by (simp add: run_defs signTransaction_def sendTransaction_def fixture_defs with_account_def
      is_set_def field_def merge_fields_def pick_def omit_def named_keys_def
      named_before_from_def named_after_from_def map_add_def)

section \<open>C9: one round-trip to the remote channel\<close>




end
